theory Spec2Isabelle
  imports Main
begin

section \<open>Shared Go notions\<close>

text \<open>
  A Go value of interface type \<open>error\<close> is either \<open>nil\<close> or a value of some type with an
  \<open>Error()\<close> method. The controller's type switch separates \<open>*aErrors.AppError\<close> from every
  other error type, so an error value is an \<open>AppError\<close> (with the code \<open>ErrorCode()\<close> returns
  and the text \<open>Error()\<close> returns) or any other error, known by the text \<open>Error()\<close> returns.
  An interface value that is \<open>nil\<close> is \<open>None\<close>. Go's \<open>int\<close> is 64 bits wide; the code only
  compares it with 0 and passes it on, so it is an \<open>int\<close> here.
\<close>

datatype go_error = AppError int string | OtherError string

text \<open>\<open>ErrorCode\<close> is a method of \<open>AppError\<close> only; \<open>Error\<close> is a method of every error.\<close>

fun ErrorCode :: "go_error \<Rightarrow> int" where
  "ErrorCode (AppError code msg) = code"

fun Error :: "go_error \<Rightarrow> string" where
  "Error (AppError code msg) = msg"
| "Error (OtherError msg) = msg"

fun isAppError :: "go_error option \<Rightarrow> bool" where
  "isAppError (Some (AppError code msg)) = True"
| "isAppError _ = False"

text \<open>
  The process trace log of package \<open>tracelog\<close>: each call appends one entry, with the title,
  the function name and the formatted message it was given.
\<close>

datatype trace_entry =
    INFO string string string
  | COMPLETED_ERROR go_error string string
  | ALERT string string string

text \<open>What \<open>fmt\<close> prints for an \<open>error\<close> under the verb \<open>%s\<close>.\<close>

fun fmt_s :: "go_error option \<Rightarrow> string" where
  "fmt_s None = ''%!s(<nil>)''"
| "fmt_s (Some e) = Error e"

section \<open>Package web: the base controller\<close>

text \<open>
  Modelled from the spec: the constants of package \<open>errors\<close> (the status codes and fixed
  messages \<open>APP_ERROR_CODE\<close>, \<open>APP_ERROR_MSG\<close>, ...) are declared outside the source file;
  the spec treats them as opaque integers and fixed texts, so every operation takes them
  as a parameter.
\<close>

record aErrors =
  APP_ERROR_CODE :: int
  APP_ERROR_MSG :: string
  VALIDATION_ERROR_CODE :: int
  VALIDATION_ERROR_MSG :: string
  UNAUTHORIZED_ERROR_CODE :: int
  UNAUTHORIZED_ERROR_MSG :: string

text \<open>
  The values the controller hands to the JSON encoder: \<open>MessageResponse\<close> is the struct of
  the source, with its one field \<open>Messages\<close>.
\<close>

datatype json_data = JNull | MessageResponse "string list"

text \<open>
  The state a \<open>BaseController\<close> method works on: the status set on \<open>Ctx.Output\<close>, the entry
  \<open>Data["json"]\<close>, the bodies \<open>ServeJson\<close> has written so far (in order), and the trace log.
\<close>

record controller =
  Status :: int
  Data_json :: "json_data option"
  Body :: "json_data list"
  Tracelog :: "trace_entry list"

definition tracelog :: "trace_entry \<Rightarrow> controller \<Rightarrow> controller" where
  "tracelog e this = this\<lparr>Tracelog := Tracelog this @ [e]\<rparr>"

definition SetStatus :: "int \<Rightarrow> controller \<Rightarrow> controller" where
  "SetStatus status this = this\<lparr>Status := status\<rparr>"

text \<open>
  \<open>ServeJson\<close> of the framework encodes \<open>Data["json"]\<close> and writes it as the response body;
  an absent entry encodes as \<open>null\<close>.
\<close>

definition ServeJson :: "controller \<Rightarrow> controller" where
  "ServeJson this =
     this\<lparr>Body := Body this @ [case Data_json this of None \<Rightarrow> JNull | Some j \<Rightarrow> j]\<rparr>"

definition ServeMessagesWithStatus :: "int \<Rightarrow> string list \<Rightarrow> controller \<Rightarrow> controller" where
  "ServeMessagesWithStatus status msgs this =
     (let this1 = SetStatus status this;
          response = MessageResponse msgs;
          this2 = this1\<lparr>Data_json := Some response\<rparr>
      in ServeJson this2)"

definition ServeMessageWithStatus :: "int \<Rightarrow> string \<Rightarrow> controller \<Rightarrow> controller" where
  "ServeMessageWithStatus status msg this = ServeMessagesWithStatus status [msg] this"

definition ServeUnAuthorized :: "aErrors \<Rightarrow> controller \<Rightarrow> controller" where
  "ServeUnAuthorized k this =
     ServeMessageWithStatus (UNAUTHORIZED_ERROR_CODE k) (UNAUTHORIZED_ERROR_MSG k)
       (tracelog (INFO ''BaseController'' ''ServeUnAuthorized'' ''UnAuthorized, Exiting'') this)"

definition ServeValidationError :: "aErrors \<Rightarrow> controller \<Rightarrow> controller" where
  "ServeValidationError k this =
     (let this1 = SetStatus (VALIDATION_ERROR_CODE k) this;
          msgs = MessageResponse [VALIDATION_ERROR_MSG k];
          this2 = this1\<lparr>Data_json := Some msgs\<rparr>
      in ServeJson this2)"

definition ServeError :: "aErrors \<Rightarrow> go_error option \<Rightarrow> controller \<Rightarrow> controller" where
  "ServeError k err this =
     (let this1 = tracelog (INFO ''BaseController'' ''ServeError'' ''Application Error, Exiting'') this
      in case err of
           Some (AppError code msg) \<Rightarrow>
             (if ErrorCode (AppError code msg) \<noteq> 0
              then ServeMessageWithStatus (ErrorCode (AppError code msg)) (Error (AppError code msg)) this1
              else ServeMessageWithStatus (APP_ERROR_CODE k) (Error (AppError code msg)) this1)
         | _ \<Rightarrow> ServeMessageWithStatus (APP_ERROR_CODE k) (APP_ERROR_MSG k) this1)"

text \<open>
  \<open>ServeErrorResponse\<close> calls \<open>err.Error()\<close> in its default branch. On a \<open>nil\<close> interface
  value that call is a nil dereference: the Go runtime panics, after the log line was
  written and before anything is served.
\<close>

datatype runtime_panic = NilDereference

definition ServeErrorResponse :: "aErrors \<Rightarrow> go_error option \<Rightarrow> controller \<Rightarrow> runtime_panic + controller" where
  "ServeErrorResponse k err this =
     (let this1 = tracelog (INFO ''BaseController'' ''ServeErrorResponse''
                    (''Application Error, Exiting : '' @ fmt_s err)) this
      in case err of
           Some (AppError code msg) \<Rightarrow>
             (if ErrorCode (AppError code msg) \<noteq> 0
              then Inr (ServeMessageWithStatus (ErrorCode (AppError code msg)) (Error (AppError code msg)) this1)
              else Inr (ServeMessageWithStatus (APP_ERROR_CODE k) (Error (AppError code msg)) this1))
         | Some e \<Rightarrow> Inr (ServeMessageWithStatus (APP_ERROR_CODE k) (Error e) this1)
         | None \<Rightarrow> Inl NilDereference)"

definition ServeAppError :: "aErrors \<Rightarrow> controller \<Rightarrow> controller" where
  "ServeAppError k this =
     ServeMessageWithStatus (APP_ERROR_CODE k) (APP_ERROR_MSG k)
       (tracelog (INFO ''BaseController'' ''ServeAppError'' ''Application Error, Exiting'') this)"

subsection \<open>ParseAndValidate\<close>

text \<open>
  What reflection shows of \<open>params\<close>: the struct's fields in declaration order, each with
  its name and its tag. A tag is the list of its key/value pairs; \<open>Get\<close> returns the value
  of the first pair with the key, and the empty string when there is none.
\<close>

record StructField =
  Name :: string
  Tag :: "(string \<times> string) list"

definition Tag_Get :: "(string \<times> string) list \<Rightarrow> string \<Rightarrow> string" where
  "Tag_Get tag key = (case map_of tag key of Some v \<Rightarrow> v | None \<Rightarrow> [])"

text \<open>
  A \<open>validation.ValidationError\<close>, with the two fields the controller reads:
  \<open>Field\<close> and \<open>Message\<close>.
\<close>

record ValidationError =
  ErrField :: string
  ErrMessage :: string

text \<open>
  The outcome of the framework's validator on the bound \<open>params\<close>: the two results of
  \<open>valid.Valid(params)\<close> and the failures it leaves in \<open>valid.Errors\<close>, in report order.
\<close>

record validation =
  Valid_ok :: bool
  Valid_err :: "go_error option"
  Errors :: "ValidationError list"

text \<open>The first loop: \<open>messages2[typeField.Name] = tagValue\<close> for each field \<open>i\<close> in turn.\<close>

fun build_messages2 :: "StructField list \<Rightarrow> (string \<rightharpoonup> string) \<Rightarrow> (string \<rightharpoonup> string)" where
  "build_messages2 [] messages2 = messages2"
| "build_messages2 (typeField # rest) messages2 =
     (let tag = Tag typeField;
          tagValue = Tag_Get tag ''error''
      in build_messages2 rest (messages2(Name typeField \<mapsto> tagValue)))"

text \<open>The second loop, over \<open>valid.Errors\<close>, appending to \<open>errors\<close>.\<close>

fun build_errors :: "(string \<rightharpoonup> string) \<Rightarrow> ValidationError list \<Rightarrow> string list \<Rightarrow> string list" where
  "build_errors messages2 [] errors = errors"
| "build_errors messages2 (err # rest) errors =
     (case messages2 (ErrField err) of
        Some message \<Rightarrow> build_errors messages2 rest (errors @ [message])
      | None \<Rightarrow> build_errors messages2 rest (errors @ [ErrMessage err]))"

text \<open>
  \<open>ParseAndValidate\<close> takes the error \<open>ParseForm\<close> returned (\<open>None\<close> for \<open>nil\<close>), the
  validator's outcome, which the code consults only once binding has succeeded, and the
  fields of \<open>params\<close>. \<open>ParseForm\<close> fails on anything but a pointer to a struct, so
  \<open>params\<close> is one wherever the reflection code runs.
\<close>

definition ParseAndValidate ::
  "aErrors \<Rightarrow> go_error option \<Rightarrow> validation \<Rightarrow> StructField list \<Rightarrow> controller \<Rightarrow> bool \<times> controller" where
  "ParseAndValidate k ParseForm_err valid params this =
     (if ParseForm_err \<noteq> None
      then (False, ServeMessageWithStatus (VALIDATION_ERROR_CODE k) (VALIDATION_ERROR_MSG k) this)
      else if Valid_err valid \<noteq> None
      then (False, ServeMessageWithStatus (VALIDATION_ERROR_CODE k) (VALIDATION_ERROR_MSG k) this)
      else if Valid_ok valid = False
      then (let messages2 = build_messages2 params Map.empty;
                errors = build_errors messages2 (Errors valid) []
            in (False, ServeMessagesWithStatus (VALIDATION_ERROR_CODE k) errors this))
      else (True, this))"

subsection \<open>CatchPanic\<close>

text \<open>
  Modelled from the spec: \<open>helper.CatchPanic\<close> belongs to package \<open>helper\<close> of this
  repository, which is not among the source files. The spec says of the guard: if a runtime
  fault occurred during the unit it is intercepted, logged with the identifier and the
  operation name, and converted into a non-nil value assigned through \<open>outErr\<close>; if no
  fault occurred the guard is a no-op. The helper's boolean result tells whether a fault was
  intercepted. The pending fault is given by the text of its value (\<open>None\<close>: no fault); the
  second argument is the variable the pointer \<open>err\<close> refers to.
\<close>

definition helper_CatchPanic ::
  "string option \<Rightarrow> go_error option \<Rightarrow> string \<Rightarrow> string \<Rightarrow> trace_entry list
     \<Rightarrow> bool \<times> go_error option \<times> trace_entry list" where
  "helper_CatchPanic fault err UUID functionName log =
     (case fault of
        None \<Rightarrow> (False, err, log)
      | Some r \<Rightarrow> (True, Some (OtherError r), log @ [ALERT UUID functionName r]))"

definition CatchPanic ::
  "aErrors \<Rightarrow> string option \<Rightarrow> go_error option \<Rightarrow> string \<Rightarrow> string \<Rightarrow> controller
     \<Rightarrow> controller \<times> go_error option" where
  "CatchPanic k fault err UUID functionName this =
     (case helper_CatchPanic fault err UUID functionName (Tracelog this) of
        (caught, err', log) \<Rightarrow>
          (let this1 = this\<lparr>Tracelog := log\<rparr>
           in if caught then (ServeAppError k this1, err') else (this1, err')))"

section \<open>Package localize: loading translations\<close>

text \<open>
  A call either returns a value or panics; a panic carries the error it was raised with and
  is not recovered anywhere in the package, so it ends every enclosing call.
\<close>

datatype 'a outcome = Return 'a | Panic go_error

text \<open>
  The directory tree as \<open>ioutil.ReadDir\<close> shows it. \<open>ReadDir\<close> reports an entry as a
  directory only when the entry itself is one (it does not follow symbolic links), so what
  the traversal sees below a root is a finite tree: a directory entry carries what
  \<open>ReadDir\<close> returns for it, an error or its entries. The tree does not change while it
  is traversed.
\<close>

datatype fs_entry = File string | Dir string dir_read
and dir_read = ReadDir_error go_error | ReadDir_ok "fs_entry list"

fun entry_Name :: "fs_entry \<Rightarrow> string" where
  "entry_Name (File name) = name"
| "entry_Name (Dir name sub) = name"

fun entry_IsDir :: "fs_entry \<Rightarrow> bool" where
  "entry_IsDir (File name) = False"
| "entry_IsDir (Dir name sub) = True"

text \<open>
  A decoded translation record, a translation built from one, and the translate function
  \<open>i18n.Tfunc\<close> binds to two locales.
\<close>

type_synonym tran_document = "(string \<times> string) list"

datatype translation = Translation string string

datatype TranslateFunc = TranslateFunc string string

text \<open>
  What the package asks of its collaborators: the environment and working directory, the
  directory tree at a root path, the JSON decoder, the translation-record constructor, the
  locale parser behind \<open>locale.MustNew\<close>, the parser behind
  \<open>i18n.MustLoadTranslationFile\<close> (the locale-tagged translations of a file, or an error)
  and \<open>i18n.Tfunc\<close> on the bundle as it stands.
\<close>

record externals =
  Getenv :: "string \<Rightarrow> string"
  Getwd :: "go_error + string"
  ReadDir :: "string \<Rightarrow> dir_read"
  json_Unmarshal :: "string \<Rightarrow> go_error + tran_document list"
  NewTranslation :: "tran_document \<Rightarrow> go_error + translation"
  locale_New :: "string \<Rightarrow> go_error + string"
  LoadTranslationFile :: "string \<Rightarrow> go_error + (string \<times> translation) list"
  Tfunc :: "string \<Rightarrow> string \<Rightarrow> (string \<times> translation) list \<Rightarrow> TranslateFunc option \<times> go_error option"

text \<open>
  The process-wide state: the translations registered with package \<open>i18n\<close>, in
  registration order, the package variable \<open>T\<close>, and the trace log.
\<close>

record localize_state =
  Bundle :: "(string \<times> translation) list"
  T :: "TranslateFunc option"
  Logged :: "trace_entry list"

definition logged :: "trace_entry \<Rightarrow> localize_state \<Rightarrow> localize_state" where
  "logged e w = w\<lparr>Logged := Logged w @ [e]\<rparr>"

text \<open>
  \<open>path.Ext\<close>: scan from the last byte backwards, stop at a slash (no extension), return
  the suffix that starts at the first dot met.
\<close>

fun Ext_scan :: "string \<Rightarrow> string \<Rightarrow> string" where
  "Ext_scan [] suffix = []"
| "Ext_scan (c # front) suffix =
     (if c = CHR ''/'' then []
      else if c = CHR ''.'' then c # suffix
      else Ext_scan front (c # suffix))"

definition path_Ext :: "string \<Rightarrow> string" where
  "path_Ext path = Ext_scan (rev path) []"

text \<open>
  \<open>i18n.MustLoadTranslationFile\<close> registers the translations of a file, and panics when
  the file cannot be read or parsed.
\<close>

definition MustLoadTranslationFile :: "externals \<Rightarrow> string \<Rightarrow> localize_state \<Rightarrow> localize_state \<times> unit outcome" where
  "MustLoadTranslationFile env fileName w =
     (case LoadTranslationFile env fileName of
        Inl err \<Rightarrow> (w, Panic err)
      | Inr entries \<Rightarrow> (w\<lparr>Bundle := Bundle w @ entries\<rparr>, Return ()))"

text \<open>
  \<open>loadTranslationFiles\<close> and \<open>searchDirectory\<close> take, next to the path, what
  \<open>ioutil.ReadDir\<close> returns for that path.
\<close>

fun loadTranslationFiles_loop ::
  "externals \<Rightarrow> fs_entry list \<Rightarrow> string \<Rightarrow> localize_state \<Rightarrow> localize_state \<times> unit outcome" where
  "loadTranslationFiles_loop env [] directory w = (w, Return ())"
| "loadTranslationFiles_loop env (fileInfo # rest) directory w =
     (if path_Ext (entry_Name fileInfo) \<noteq> ''.json''
      then loadTranslationFiles_loop env rest directory w
      else (let fileName = directory @ ''/'' @ entry_Name fileInfo;
                w1 = logged (INFO ''localize'' ''loadTranslationFiles'' (''Loading '' @ fileName)) w
            in case MustLoadTranslationFile env fileName w1 of
                 (w2, Panic p) \<Rightarrow> (w2, Panic p)
               | (w2, Return u) \<Rightarrow> loadTranslationFiles_loop env rest directory w2))"

fun loadTranslationFiles ::
  "externals \<Rightarrow> dir_read \<Rightarrow> string \<Rightarrow> localize_state \<Rightarrow> localize_state \<times> unit outcome" where
  "loadTranslationFiles env (ReadDir_error err) directory w =
     (logged (COMPLETED_ERROR err ''localize'' ''loadTranslationFiles'') w, Return ())"
| "loadTranslationFiles env (ReadDir_ok fileInfos) directory w =
     loadTranslationFiles_loop env fileInfos directory w"

fun searchDirectory ::
  "externals \<Rightarrow> dir_read \<Rightarrow> string \<Rightarrow> string \<Rightarrow> localize_state \<Rightarrow> localize_state \<times> unit outcome"
and searchDirectory_loop ::
  "externals \<Rightarrow> fs_entry list \<Rightarrow> string \<Rightarrow> string \<Rightarrow> localize_state \<Rightarrow> localize_state \<times> unit outcome"
where
  "searchDirectory env (ReadDir_error err) directory pwd w =
     (logged (COMPLETED_ERROR err ''localize'' ''searchDirectory'') w, Return ())"
| "searchDirectory env (ReadDir_ok fileInfos) directory pwd w =
     searchDirectory_loop env fileInfos directory pwd w"
| "searchDirectory_loop env [] directory pwd w = (w, Return ())"
| "searchDirectory_loop env (File name # rest) directory pwd w =
     searchDirectory_loop env rest directory pwd w"
| "searchDirectory_loop env (Dir name sub # rest) directory pwd w =
     (let fullPath = directory @ ''/'' @ name
      in if fullPath = pwd
         then searchDirectory_loop env rest directory pwd w
         else if name = ''i18n''
         then (case loadTranslationFiles env sub fullPath w of
                 (w1, Panic p) \<Rightarrow> (w1, Panic p)
               | (w1, Return u) \<Rightarrow> searchDirectory_loop env rest directory pwd w1)
         else (case searchDirectory env sub fullPath pwd w of
                 (w1, Panic p) \<Rightarrow> (w1, Panic p)
               | (w1, Return u) \<Rightarrow> searchDirectory_loop env rest directory pwd w1))"

definition LoadFiles ::
  "externals \<Rightarrow> string \<Rightarrow> string \<Rightarrow> localize_state \<Rightarrow> localize_state \<times> go_error option outcome" where
  "LoadFiles env userLocale defaultLocal w =
     (let gopath = Getenv env ''GOPATH''
      in case Getwd env of
           Inl err \<Rightarrow> (logged (COMPLETED_ERROR err ''localize'' ''LoadFiles'') w, Return (Some err))
         | Inr pwd \<Rightarrow>
             (let w1 = logged (INFO ''localize'' ''LoadFiles''
                          (''PWD['' @ pwd @ ''] GOPATH['' @ gopath @ '']'')) w
              in case searchDirectory env (ReadDir env pwd) pwd pwd w1 of
                   (w2, Panic p) \<Rightarrow> (w2, Panic p)
                 | (w2, Return u) \<Rightarrow>
                     (case (if gopath \<noteq> '''' then searchDirectory env (ReadDir env gopath) gopath pwd w2
                            else (w2, Return ())) of
                        (w3, Panic p) \<Rightarrow> (w3, Panic p)
                      | (w3, Return u) \<Rightarrow>
                          (case Tfunc env userLocale defaultLocal (Bundle w3) of
                             (t, err) \<Rightarrow> (w3\<lparr>T := t\<rparr>, Return err)))))"



section \<open>Sample inputs\<close>

definition sample_codes :: aErrors where
  "sample_codes =
     \<lparr>APP_ERROR_CODE = 500, APP_ERROR_MSG = ''An Application Error Has Occured'',
      VALIDATION_ERROR_CODE = 409, VALIDATION_ERROR_MSG = ''A Validation Error Has Occured'',
      UNAUTHORIZED_ERROR_CODE = 401, UNAUTHORIZED_ERROR_MSG = ''Unauthorized''\<rparr>"

definition fresh_controller :: controller where
  "fresh_controller = \<lparr>Status = 0, Data_json = None, Body = [], Tracelog = []\<rparr>"

definition fresh_state :: localize_state where
  "fresh_state = \<lparr>Bundle = [], T = None, Logged = []\<rparr>"

text \<open>
  The target structure and the failure report of the spec's example: field \<open>A\<close> declares
  the override \<open>custom A\<close>, field \<open>B\<close> the empty override, and the validator reports both.
\<close>

definition fields_AB :: "StructField list" where
  "fields_AB = [\<lparr>Name = ''A'', Tag = [(''error'', ''custom A'')]\<rparr>,
                \<lparr>Name = ''B'', Tag = [(''error'', '''')]\<rparr>]"

definition failures_AB :: "ValidationError list" where
  "failures_AB = [\<lparr>ErrField = ''A'', ErrMessage = ''m_a''\<rparr>,
                  \<lparr>ErrField = ''B'', ErrMessage = ''m_b''\<rparr>]"

text \<open>
  A structure that declares \<open>C\<close> before \<open>D\<close>, both with an override, and a report that
  names \<open>D\<close> before \<open>C\<close>.
\<close>

definition fields_CD :: "StructField list" where
  "fields_CD = [\<lparr>Name = ''C'', Tag = [(''form'', ''c''), (''error'', ''custom C'')]\<rparr>,
                \<lparr>Name = ''D'', Tag = [(''error'', ''custom D'')]\<rparr>]"

definition failures_DC :: "ValidationError list" where
  "failures_DC = [\<lparr>ErrField = ''D'', ErrMessage = ''m_d''\<rparr>,
                  \<lparr>ErrField = ''C'', ErrMessage = ''m_c''\<rparr>]"

text \<open>
  Collaborators for the examples: the working directory \<open>pwd\<close> holds the tree \<open>tree\<close>
  and no other path can be read; the files listed in \<open>broken\<close> fail to load and every
  other file yields one translation that carries the file's name; the decoder knows one
  document, whose third record cannot be built.
\<close>

definition sample_externals :: "string \<Rightarrow> string \<Rightarrow> fs_entry list \<Rightarrow> string list \<Rightarrow> externals" where
  "sample_externals pwd gopath tree broken =
     \<lparr>Getenv = (\<lambda>name. if name = ''GOPATH'' then gopath else ''''),
      Getwd = Inr pwd,
      ReadDir = (\<lambda>path. if path = pwd then ReadDir_ok tree
                         else ReadDir_error (OtherError ''no such file or directory'')),
      json_Unmarshal = (\<lambda>document. if document = ''[{a},{b},{c}]''
                         then Inr [[(''id'', ''a'')], [(''id'', ''b'')], [(''id'', ''c'')]]
                         else Inl (OtherError ''invalid character'')),
      NewTranslation = (\<lambda>tranDocument. case map_of tranDocument ''id'' of
                           Some t \<Rightarrow> if t = ''c'' then Inl (OtherError ''missing translation'')
                                     else Inr (Translation t ''text'')
                         | None \<Rightarrow> Inl (OtherError ''missing id'')),
      locale_New = (\<lambda>localeID. if localeID = ''en-US'' then Inr localeID
                                else Inl (OtherError ''invalid locale'')),
      LoadTranslationFile = (\<lambda>fileName. if fileName \<in> set broken
                                then Inl (OtherError ''unexpected end of JSON input'')
                                else Inr [(''en-US'', Translation fileName ''text'')]),
      Tfunc = (\<lambda>userLocale defaultLocal bundle. (Some (TranslateFunc userLocale defaultLocal), None))\<rparr>"

definition tree_one_folder :: "fs_entry list" where
  "tree_one_folder = [File ''main.go'', Dir ''i18n'' (ReadDir_ok [File ''en-US.all.json''])]"

definition tree_of_spec :: "fs_entry list" where
  "tree_of_spec =
     [Dir ''i18n'' (ReadDir_ok [Dir ''sub'' (ReadDir_ok [File ''deep.json''])]),
      Dir ''x'' (ReadDir_ok [Dir ''i18n'' (ReadDir_ok [File ''en.json'', File ''notes.txt''])])]"


definition tree_go :: "fs_entry list" where
  "tree_go = [Dir ''proj'' (ReadDir_ok [Dir ''i18n'' (ReadDir_ok [File ''en.json''])])]"

section \<open>The message order of the spec's invariant\<close>

text \<open>
  This definition follows the spec's words, not the source: the invariant of the data model
  asks that the resulting message list preserve the declaration order of the fields in the
  target structure. It lists the messages field by field, in declaration order, each
  field's failures served as \<open>build_errors\<close> serves them. It is only compared with what the
  code returns.
\<close>

definition messages_in_declaration_order ::
  "StructField list \<Rightarrow> (string \<rightharpoonup> string) \<Rightarrow> ValidationError list \<Rightarrow> string list" where
  "messages_in_declaration_order params messages2 failures =
     concat (map (\<lambda>typeField.
       build_errors messages2 (filter (\<lambda>err. ErrField err = Name typeField) failures) []) params)"

section \<open>Properties of the base controller\<close>

subsection \<open>What one served message leaves in the controller\<close>

lemma Body_ServeMessagesWithStatus:
  "Body (ServeMessagesWithStatus status msgs this) = Body this @ [MessageResponse msgs]"
  by (simp add: ServeMessagesWithStatus_def ServeJson_def SetStatus_def Let_def)

lemma Status_ServeMessagesWithStatus:
  "Status (ServeMessagesWithStatus status msgs this) = status"
  by (simp add: ServeMessagesWithStatus_def ServeJson_def SetStatus_def Let_def)

lemma Data_ServeMessagesWithStatus:
  "Data_json (ServeMessagesWithStatus status msgs this) = Some (MessageResponse msgs)"
  by (simp add: ServeMessagesWithStatus_def ServeJson_def SetStatus_def Let_def)

lemma Tracelog_ServeMessagesWithStatus:
  "Tracelog (ServeMessagesWithStatus status msgs this) = Tracelog this"
  by (simp add: ServeMessagesWithStatus_def ServeJson_def SetStatus_def Let_def)

lemmas served = Body_ServeMessagesWithStatus Status_ServeMessagesWithStatus
  Data_ServeMessagesWithStatus Tracelog_ServeMessagesWithStatus

lemma tracelog_fields:
  "Body (tracelog e this) = Body this" "Status (tracelog e this) = Status this"
  "Data_json (tracelog e this) = Data_json this"
  by (simp_all add: tracelog_def)

lemma sample_codes_simps [simp]:
  "APP_ERROR_CODE sample_codes = 500"
  "APP_ERROR_MSG sample_codes = ''An Application Error Has Occured''"
  "VALIDATION_ERROR_CODE sample_codes = 409"
  "VALIDATION_ERROR_MSG sample_codes = ''A Validation Error Has Occured''"
  by (simp_all add: sample_codes_def)

lemma fresh_controller_simps [simp]:
  "Status fresh_controller = 0" "Data_json fresh_controller = None"
  "Body fresh_controller = []" "Tracelog fresh_controller = []"
  by (simp_all add: fresh_controller_def)

subsection \<open>Serving errors\<close>

text \<open>
  Claim C1. For every error value \<open>E\<close> that is not an \<open>AppError\<close>, \<open>ServeErrorResponse\<close>
  sets the status \<open>APP_ERROR_CODE\<close> and writes one body, \<open>{Messages: [E.Error()]}\<close>: the
  error's own text is kept. \<open>ServeAppError\<close>, on the other hand, writes the fixed text
  \<open>APP_ERROR_MSG\<close> whatever happened before.
\<close>

theorem ServeErrorResponse_keeps_other_text:
  assumes "\<not> isAppError (Some E)"
  shows "\<exists>this'. ServeErrorResponse k (Some E) this = Inr this'
           \<and> Status this' = APP_ERROR_CODE k
           \<and> Body this' = Body this @ [MessageResponse [Error E]]
           \<and> Body (ServeAppError k this) = Body this @ [MessageResponse [APP_ERROR_MSG k]]"
proof (cases E)
  case (AppError code msg)
  with assms show ?thesis by simp
next
  case (OtherError msg)
  then show ?thesis
    by (simp add: ServeErrorResponse_def ServeAppError_def ServeMessageWithStatus_def
        served tracelog_fields)
qed

theorem ServeErrorResponse_keeps_other_text_witness:
  "\<exists>this'. ServeErrorResponse sample_codes (Some (OtherError ''disk full'')) fresh_controller = Inr this'
     \<and> Status this' = 500
     \<and> Body this' = [MessageResponse [''disk full'']]
     \<and> Body (ServeAppError sample_codes fresh_controller)
         = [MessageResponse [''An Application Error Has Occured'']]"
proof -
  have "\<not> isAppError (Some (OtherError ''disk full''))"
    by simp
  from ServeErrorResponse_keeps_other_text [OF this, of sample_codes fresh_controller]
  show ?thesis
    by simp
qed

text \<open>
  Claim C5. For every \<open>AppError\<close> with code \<open>C\<close> and message \<open>M\<close>, both error serializers
  (\<open>ServeError\<close> and \<open>ServeErrorResponse\<close>) write the one body \<open>{Messages: [M]}\<close>, with
  status \<open>C\<close> when \<open>C\<close> is not 0 and status \<open>APP_ERROR_CODE\<close> when it is.
\<close>

theorem AppError_code_and_message:
  "Status (ServeError k (Some (AppError C M)) this) = (if C \<noteq> 0 then C else APP_ERROR_CODE k)
   \<and> Body (ServeError k (Some (AppError C M)) this) = Body this @ [MessageResponse [M]]
   \<and> (\<exists>this'. ServeErrorResponse k (Some (AppError C M)) this = Inr this'
         \<and> Status this' = (if C \<noteq> 0 then C else APP_ERROR_CODE k)
         \<and> Body this' = Body this @ [MessageResponse [M]])"
  by (simp add: ServeError_def ServeErrorResponse_def ServeMessageWithStatus_def
      served tracelog_fields)

text \<open>
  Claim C10. For every error that is not an \<open>AppError\<close> (the \<open>nil\<close> error included),
  \<open>ServeError\<close> leaves the same status, body and \<open>Data["json"]\<close> as \<open>ServeAppError\<close>:
  status \<open>APP_ERROR_CODE\<close> and the one fixed message \<open>APP_ERROR_MSG\<close>; the error's own text
  is dropped. Of the two serializers only \<open>ServeErrorResponse\<close> keeps that text (and it
  panics on the \<open>nil\<close> error).
\<close>

theorem ServeError_discards_other_text:
  assumes "\<not> isAppError err"
  shows "Status (ServeError k err this) = APP_ERROR_CODE k
     \<and> Body (ServeError k err this) = Body this @ [MessageResponse [APP_ERROR_MSG k]]
     \<and> Status (ServeError k err this) = Status (ServeAppError k this)
     \<and> Body (ServeError k err this) = Body (ServeAppError k this)
     \<and> Data_json (ServeError k err this) = Data_json (ServeAppError k this)
     \<and> (case err of
          None \<Rightarrow> ServeErrorResponse k err this = Inl NilDereference
        | Some E \<Rightarrow> (\<exists>this'. ServeErrorResponse k err this = Inr this'
                      \<and> Status this' = APP_ERROR_CODE k
                      \<and> Body this' = Body this @ [MessageResponse [Error E]]))"
proof (cases err)
  case None
  then show ?thesis
    by (simp add: ServeError_def ServeErrorResponse_def ServeAppError_def
        ServeMessageWithStatus_def served tracelog_fields)
next
  case (Some E)
  show ?thesis
  proof (cases E)
    case (AppError code msg)
    with Some assms show ?thesis by simp
  next
    case (OtherError msg)
    with Some show ?thesis
      by (simp add: ServeError_def ServeErrorResponse_def ServeAppError_def
          ServeMessageWithStatus_def served tracelog_fields)
  qed
qed

theorem ServeError_discards_other_text_witness:
  "Status (ServeError sample_codes (Some (OtherError ''disk full'')) fresh_controller) = 500
   \<and> Body (ServeError sample_codes (Some (OtherError ''disk full'')) fresh_controller)
       = [MessageResponse [''An Application Error Has Occured'']]
   \<and> Body (ServeError sample_codes (Some (OtherError ''disk full'')) fresh_controller)
       = Body (ServeAppError sample_codes fresh_controller)
   \<and> (\<exists>this'. ServeErrorResponse sample_codes (Some (OtherError ''disk full'')) fresh_controller = Inr this'
         \<and> Body this' = [MessageResponse [''disk full'']])"
proof -
  have "\<not> isAppError (Some (OtherError ''disk full''))"
    by simp
  from ServeError_discards_other_text [OF this, of sample_codes fresh_controller]
  show ?thesis
    by auto
qed

subsection \<open>Validation\<close>

lemma build_errors_map:
  "build_errors messages2 failures errors =
     errors @ map (\<lambda>err. case messages2 (ErrField err) of Some message \<Rightarrow> message
                                | None \<Rightarrow> ErrMessage err) failures"
  by (induction failures arbitrary: errors) (auto split: option.splits)

lemma build_messages2_Some:
  "build_messages2 params m name = Some v \<Longrightarrow>
     m name = Some v \<or> (\<exists>typeField \<in> set params. Name typeField = name \<and> v = Tag_Get (Tag typeField) ''error'')"
proof (induction params arbitrary: m)
  case Nil
  then show ?case by simp
next
  case (Cons typeField params)
  from Cons.prems
  have "build_messages2 params (m(Name typeField \<mapsto> Tag_Get (Tag typeField) ''error'')) name = Some v"
    by (simp add: Let_def)
  from Cons.IH [OF this] show ?case
    by (auto split: if_splits)
qed

lemma dom_build_messages2:
  "dom (build_messages2 params m) = dom m \<union> Name ` set params"
  by (induction params arbitrary: m) (auto simp: Let_def)

text \<open>
  Claim C2, at the spec's own example. The structure declares \<open>A\<close> with the override
  \<open>custom A\<close> and \<open>B\<close> with the empty override; the validator reports \<open>m_a\<close> on \<open>A\<close> and
  \<open>m_b\<close> on \<open>B\<close>. The claim expects the messages \<open>custom A\<close>, \<open>m_b\<close>. The code serves
  \<open>custom A\<close> and the empty string: \<open>messages2\<close> holds an entry for every declared field,
  so the lookup succeeds for \<open>B\<close> and its empty tag value is served in place of \<open>m_b\<close>.
\<close>

theorem empty_override_is_served:
  "ParseAndValidate sample_codes None \<lparr>Valid_ok = False, Valid_err = None, Errors = failures_AB\<rparr>
     fields_AB fresh_controller
   = (False, \<lparr>Status = 409, Data_json = Some (MessageResponse [''custom A'', '''']),
              Body = [MessageResponse [''custom A'', '''']], Tracelog = []\<rparr>)"
  by (simp add: ParseAndValidate_def fields_AB_def failures_AB_def Tag_Get_def
      ServeMessagesWithStatus_def ServeJson_def SetStatus_def Let_def fresh_controller_def)

text \<open>
  Claim C3 as stated fails: the structure declares \<open>C\<close> before \<open>D\<close>, the validator reports
  \<open>D\<close> before \<open>C\<close>, and the served list is \<open>custom D\<close>, \<open>custom C\<close>, which is not the list
  in declaration order.
\<close>

theorem report_order_counterexample:
  "Body (snd (ParseAndValidate sample_codes None
            \<lparr>Valid_ok = False, Valid_err = None, Errors = failures_DC\<rparr> fields_CD fresh_controller))
     = [MessageResponse [''custom D'', ''custom C'']]
   \<and> messages_in_declaration_order fields_CD (build_messages2 fields_CD Map.empty) failures_DC
     = [''custom C'', ''custom D'']
   \<and> Body (snd (ParseAndValidate sample_codes None
            \<lparr>Valid_ok = False, Valid_err = None, Errors = failures_DC\<rparr> fields_CD fresh_controller))
     \<noteq> [MessageResponse (messages_in_declaration_order fields_CD
            (build_messages2 fields_CD Map.empty) failures_DC)]"
  by (simp add: ParseAndValidate_def fields_CD_def failures_DC_def Tag_Get_def
      messages_in_declaration_order_def served Let_def)

text \<open>
  Claim C3, amended. When binding and the validator's run succeed and the validator reports
  the structure invalid, \<open>ParseAndValidate\<close> serves one message per reported failure, in the
  order of the report: the message at each position is the validator's message of the
  failure at that position or the override text of a declared field with that failure's
  field name. The override map has the declared field names as its keys, and no order.
\<close>

theorem messages_follow_report_order:
  assumes "ParseForm_err = None" and "Valid_err valid = None" and "\<not> Valid_ok valid"
  shows "\<exists>msgs. ParseAndValidate k ParseForm_err valid params this
           = (False, this\<lparr>Status := VALIDATION_ERROR_CODE k,
                          Data_json := Some (MessageResponse msgs),
                          Body := Body this @ [MessageResponse msgs]\<rparr>)
         \<and> list_all2 (\<lambda>msg err. msg = ErrMessage err
               \<or> (\<exists>typeField \<in> set params. Name typeField = ErrField err
                     \<and> msg = Tag_Get (Tag typeField) ''error'')) msgs (Errors valid)
         \<and> dom (build_messages2 params Map.empty) = Name ` set params"
proof -
  let ?m = "build_messages2 params Map.empty"
  let ?pick = "\<lambda>err. case ?m (ErrField err) of Some message \<Rightarrow> message | None \<Rightarrow> ErrMessage err"
  let ?msgs = "map ?pick (Errors valid)"
  have run: "ParseAndValidate k ParseForm_err valid params this
           = (False, this\<lparr>Status := VALIDATION_ERROR_CODE k,
                          Data_json := Some (MessageResponse ?msgs),
                          Body := Body this @ [MessageResponse ?msgs]\<rparr>)"
    using assms
    by (simp add: ParseAndValidate_def build_errors_map ServeMessagesWithStatus_def
        ServeJson_def SetStatus_def Let_def)
  have each: "?pick err = ErrMessage err
               \<or> (\<exists>typeField \<in> set params. Name typeField = ErrField err
                     \<and> ?pick err = Tag_Get (Tag typeField) ''error'')" for err
  proof (cases "?m (ErrField err)")
    case None
    then show ?thesis by simp
  next
    case (Some v)
    from build_messages2_Some [OF this] Some show ?thesis by auto
  qed
  have rel: "list_all2 (\<lambda>msg err. msg = ErrMessage err
               \<or> (\<exists>typeField \<in> set params. Name typeField = ErrField err
                     \<and> msg = Tag_Get (Tag typeField) ''error'')) ?msgs (Errors valid)"
    unfolding list_all2_map1 list_all2_same using each by blast
  have keys: "dom ?m = Name ` set params"
    by (simp add: dom_build_messages2)
  from run rel keys show ?thesis by blast
qed

theorem messages_follow_report_order_witness:
  "\<exists>msgs. ParseAndValidate sample_codes None
            \<lparr>Valid_ok = False, Valid_err = None, Errors = failures_DC\<rparr> fields_CD fresh_controller
           = (False, fresh_controller\<lparr>Status := 409,
                          Data_json := Some (MessageResponse msgs),
                          Body := [MessageResponse msgs]\<rparr>)
         \<and> list_all2 (\<lambda>msg err. msg = ErrMessage err
               \<or> (\<exists>typeField \<in> set fields_CD. Name typeField = ErrField err
                     \<and> msg = Tag_Get (Tag typeField) ''error'')) msgs failures_DC
         \<and> dom (build_messages2 fields_CD Map.empty) = Name ` set fields_CD"
proof -
  let ?valid = "\<lparr>Valid_ok = False, Valid_err = None, Errors = failures_DC\<rparr>"
  have a: "(None :: go_error option) = None" and b: "Valid_err ?valid = None"
    and c: "\<not> Valid_ok ?valid"
    by simp_all
  from messages_follow_report_order [OF a b c, of sample_codes fields_CD fresh_controller]
  show ?thesis by simp
qed

text \<open>
  Claim C8. When \<open>ParseForm\<close> returns an error, or \<open>valid.Valid\<close> returns one, the
  operation returns \<open>false\<close> and serves the status \<open>VALIDATION_ERROR_CODE\<close> with the one
  fixed message \<open>VALIDATION_ERROR_MSG\<close>. The response is the same term in both cases, and
  it mentions neither the validator's verdict and failure list nor the fields of the
  structure: no field-level result is reported, and the two failures cannot be told apart.
\<close>

theorem binding_or_validator_failure_is_generic:
  assumes "ParseForm_err \<noteq> None \<or> Valid_err valid \<noteq> None"
  shows "ParseAndValidate k ParseForm_err valid params this
           = (False, this\<lparr>Status := VALIDATION_ERROR_CODE k,
                          Data_json := Some (MessageResponse [VALIDATION_ERROR_MSG k]),
                          Body := Body this @ [MessageResponse [VALIDATION_ERROR_MSG k]]\<rparr>)"
  using assms
  by (auto simp: ParseAndValidate_def ServeMessageWithStatus_def ServeMessagesWithStatus_def
      ServeJson_def SetStatus_def Let_def)

theorem binding_or_validator_failure_is_generic_witness:
  "ParseAndValidate sample_codes (Some (OtherError ''bad form''))
      \<lparr>Valid_ok = False, Valid_err = None, Errors = failures_AB\<rparr> fields_AB fresh_controller
     = (False, fresh_controller\<lparr>Status := 409,
          Data_json := Some (MessageResponse [''A Validation Error Has Occured'']),
          Body := [MessageResponse [''A Validation Error Has Occured'']]\<rparr>)
   \<and> ParseAndValidate sample_codes None
      \<lparr>Valid_ok = True, Valid_err = Some (OtherError ''no such rule''), Errors = failures_DC\<rparr>
      fields_CD fresh_controller
     = (False, fresh_controller\<lparr>Status := 409,
          Data_json := Some (MessageResponse [''A Validation Error Has Occured'']),
          Body := [MessageResponse [''A Validation Error Has Occured'']]\<rparr>)"
proof -
  let ?v1 = "\<lparr>Valid_ok = False, Valid_err = None, Errors = failures_AB\<rparr>"
  let ?v2 = "\<lparr>Valid_ok = True, Valid_err = Some (OtherError ''no such rule''), Errors = failures_DC\<rparr>"
  have a: "Some (OtherError ''bad form'') \<noteq> None \<or> Valid_err ?v1 \<noteq> None"
    by simp
  have b: "(None :: go_error option) \<noteq> None \<or> Valid_err ?v2 \<noteq> None"
    by simp
  from binding_or_validator_failure_is_generic [OF a, of sample_codes fields_AB fresh_controller]
    binding_or_validator_failure_is_generic [OF b, of sample_codes fields_CD fresh_controller]
  show ?thesis by simp
qed

subsection \<open>The panic guard\<close>

text \<open>
  Claim C9. When a fault is pending, \<open>CatchPanic\<close> writes exactly one body, the fixed
  message \<open>APP_ERROR_MSG\<close>, sets the status \<open>APP_ERROR_CODE\<close> and leaves a non-nil error
  in the caller's variable. When no fault is pending it changes neither the controller nor
  the caller's variable.
\<close>

theorem CatchPanic_guard:
  "snd (CatchPanic k (Some r) err UUID functionName this) \<noteq> None
   \<and> Status (fst (CatchPanic k (Some r) err UUID functionName this)) = APP_ERROR_CODE k
   \<and> Body (fst (CatchPanic k (Some r) err UUID functionName this))
       = Body this @ [MessageResponse [APP_ERROR_MSG k]]
   \<and> CatchPanic k None err UUID functionName this = (this, err)"
  by (simp add: CatchPanic_def helper_CatchPanic_def ServeAppError_def
      ServeMessageWithStatus_def served tracelog_fields)

section \<open>Properties of the translation loader\<close>

lemma Bundle_logged [simp]: "Bundle (logged e w) = Bundle w"
  by (simp add: logged_def)

lemma T_logged [simp]: "T (logged e w) = T w"
  by (simp add: logged_def)

lemma MustLoad_cases:
  "MustLoadTranslationFile env f w =
     (case LoadTranslationFile env f of
        Inl err \<Rightarrow> (w, Panic err)
      | Inr entries \<Rightarrow> (w\<lparr>Bundle := Bundle w @ entries\<rparr>, Return ()))"
  by (simp add: MustLoadTranslationFile_def)

subsection \<open>Directory-read failures do not stop the traversal\<close>





subsection \<open>Nothing registered is taken back\<close>








subsection \<open>A resource folder is read flat\<close>

lemma loadTranslationFiles_loop_flat:
  "loadTranslationFiles_loop env fileInfos directory w =
     loadTranslationFiles_loop env
       (map (\<lambda>fileInfo. File (entry_Name fileInfo))
          (filter (\<lambda>fileInfo. path_Ext (entry_Name fileInfo) = ''.json'') fileInfos)) directory w"
  by (induction fileInfos arbitrary: w) (auto simp: Let_def split: prod.splits outcome.splits)

lemma loadTranslationFiles_loop_content:
  assumes "\<forall>f. LoadTranslationFile env f = Inr (content f)"
  shows "Bundle (fst (loadTranslationFiles_loop env fileInfos directory w)) =
     Bundle w @ concat (map (\<lambda>fileInfo. content (directory @ ''/'' @ entry_Name fileInfo))
       (filter (\<lambda>fileInfo. path_Ext (entry_Name fileInfo) = ''.json'') fileInfos))"
  using assms
  by (induction fileInfos arbitrary: w) (simp_all add: Let_def MustLoad_cases)

subsection \<open>LoadJSON\<close>






subsection \<open>Failures while loading\<close>



subsection \<open>What the traversal does with a directory it scans\<close>

text \<open>
  Claim C6 as stated fails for the directory that is the working directory: searching
  \<open>/go\<close> with the working directory \<open>/go/proj\<close>, the directory \<open>proj\<close> is not named
  \<open>i18n\<close> and holds a resource folder, yet it is not descended into and nothing is
  loaded. Descending into it would load \<open>/go/proj/i18n/en.json\<close>.
\<close>

theorem descent_counterexample:
  "searchDirectory_loop (sample_externals ''/go/proj'' ''/go'' [] []) tree_go ''/go'' ''/go/proj'' fresh_state
     = (fresh_state, Return ())
   \<and> Bundle (fst (searchDirectory (sample_externals ''/go/proj'' ''/go'' [] [])
        (ReadDir_ok [Dir ''i18n'' (ReadDir_ok [File ''en.json''])]) ''/go/proj'' ''/go/proj'' fresh_state))
     = [(''en-US'', Translation ''/go/proj/i18n/en.json'' ''text'')]
   \<and> searchDirectory_loop (sample_externals ''/go/proj'' ''/go'' [] []) tree_go ''/go'' ''/go/proj'' fresh_state
     \<noteq> (case searchDirectory (sample_externals ''/go/proj'' ''/go'' [] [])
              (ReadDir_ok [Dir ''i18n'' (ReadDir_ok [File ''en.json''])]) ''/go/proj'' ''/go/proj'' fresh_state of
           (w1, Panic p) \<Rightarrow> (w1, Panic p)
         | (w1, Return u) \<Rightarrow>
             searchDirectory_loop (sample_externals ''/go/proj'' ''/go'' [] []) [] ''/go'' ''/go/proj'' w1)"
  by (simp add: tree_go_def sample_externals_def fresh_state_def path_Ext_def
      MustLoadTranslationFile_def logged_def Let_def)

text \<open>
  Claim C6, amended. A scanned directory whose full path is the working directory is
  skipped. Any other scanned directory named exactly \<open>i18n\<close> is handed to
  \<open>loadTranslationFiles\<close> and not descended into; any other scanned directory is
  descended into by \<open>searchDirectory\<close>; the traversal then goes on with the next entry
  unless a file load panicked. \<open>loadTranslationFiles\<close> looks at the names of the
  folder's immediate children only, and only at those with the extension \<open>.json\<close>: what
  lies below a child is never read. When every file loads, the bundle gains the
  translations of exactly the immediate \<open>.json\<close> children, in listing order.
\<close>

theorem scanned_directory:
  "searchDirectory_loop env (Dir name sub # rest) directory pwd w =
     (if directory @ ''/'' @ name = pwd then searchDirectory_loop env rest directory pwd w
      else case (if name = ''i18n'' then loadTranslationFiles env sub (directory @ ''/'' @ name) w
                 else searchDirectory env sub (directory @ ''/'' @ name) pwd w) of
             (w1, Panic p) \<Rightarrow> (w1, Panic p)
           | (w1, Return u) \<Rightarrow> searchDirectory_loop env rest directory pwd w1)
   \<and> loadTranslationFiles env (ReadDir_ok fileInfos) folder w0 =
       loadTranslationFiles env
         (ReadDir_ok (map (\<lambda>fileInfo. File (entry_Name fileInfo))
            (filter (\<lambda>fileInfo. path_Ext (entry_Name fileInfo) = ''.json'') fileInfos))) folder w0
   \<and> ((\<forall>f. LoadTranslationFile env f = Inr (content f)) \<longrightarrow>
        Bundle (fst (loadTranslationFiles env (ReadDir_ok fileInfos) folder w0)) =
          Bundle w0 @ concat (map (\<lambda>fileInfo. content (folder @ ''/'' @ entry_Name fileInfo))
            (filter (\<lambda>fileInfo. path_Ext (entry_Name fileInfo) = ''.json'') fileInfos)))"
proof -
  have step: "searchDirectory_loop env (Dir name sub # rest) directory pwd w =
     (if directory @ ''/'' @ name = pwd then searchDirectory_loop env rest directory pwd w
      else case (if name = ''i18n'' then loadTranslationFiles env sub (directory @ ''/'' @ name) w
                 else searchDirectory env sub (directory @ ''/'' @ name) pwd w) of
             (w1, Panic p) \<Rightarrow> (w1, Panic p)
           | (w1, Return u) \<Rightarrow> searchDirectory_loop env rest directory pwd w1)"
    by (simp add: Let_def)
  have flat: "loadTranslationFiles env (ReadDir_ok fileInfos) folder w0 =
       loadTranslationFiles env
         (ReadDir_ok (map (\<lambda>fileInfo. File (entry_Name fileInfo))
            (filter (\<lambda>fileInfo. path_Ext (entry_Name fileInfo) = ''.json'') fileInfos))) folder w0"
    using loadTranslationFiles_loop_flat [of env fileInfos folder w0] by simp
  have loaded: "(\<forall>f. LoadTranslationFile env f = Inr (content f)) \<longrightarrow>
        Bundle (fst (loadTranslationFiles env (ReadDir_ok fileInfos) folder w0)) =
          Bundle w0 @ concat (map (\<lambda>fileInfo. content (folder @ ''/'' @ entry_Name fileInfo))
            (filter (\<lambda>fileInfo. path_Ext (entry_Name fileInfo) = ''.json'') fileInfos))"
    using loadTranslationFiles_loop_content [of env content fileInfos folder w0] by simp
  from step flat loaded show ?thesis by blast
qed

text \<open>
  The spec's example as the witness: \<open>/srv/app/x/i18n/en.json\<close> is loaded,
  \<open>notes.txt\<close> beside it is not, and \<open>/srv/app/i18n/sub/deep.json\<close>, one level below
  a resource folder, is not.
\<close>

theorem scanned_directory_witness:
  "searchDirectory_loop (sample_externals ''/srv/app'' [] tree_of_spec []) tree_of_spec
       ''/srv/app'' ''/srv/app'' fresh_state
     = (\<lparr>Bundle = [(''en-US'', Translation ''/srv/app/x/i18n/en.json'' ''text'')], T = None,
         Logged = [INFO ''localize'' ''loadTranslationFiles'' ''Loading /srv/app/x/i18n/en.json'']\<rparr>,
        Return ())
   \<and> loadTranslationFiles (sample_externals ''/srv/app'' [] tree_of_spec [])
       (ReadDir_ok [Dir ''sub'' (ReadDir_ok [File ''deep.json''])]) ''/srv/app/i18n'' fresh_state
     = loadTranslationFiles (sample_externals ''/srv/app'' [] tree_of_spec [])
       (ReadDir_ok []) ''/srv/app/i18n'' fresh_state
   \<and> Bundle (fst (loadTranslationFiles (sample_externals ''/srv/app'' [] tree_of_spec [])
       (ReadDir_ok [File ''en.json'', File ''notes.txt'']) ''/srv/app/x/i18n'' fresh_state))
     = [(''en-US'', Translation ''/srv/app/x/i18n/en.json'' ''text'')]"
proof -
  let ?E = "sample_externals ''/srv/app'' [] tree_of_spec []"
  let ?content = "\<lambda>f. [(''en-US'', Translation f ''text'')]"
  let ?deep = "[Dir ''sub'' (ReadDir_ok [File ''deep.json''])]"
  let ?x = "[Dir ''x'' (ReadDir_ok [Dir ''i18n'' (ReadDir_ok [File ''en.json'', File ''notes.txt''])])]"
  have "searchDirectory_loop ?E (Dir ''i18n'' (ReadDir_ok ?deep) # ?x) ''/srv/app'' ''/srv/app'' fresh_state
    = (if ''/srv/app'' @ ''/'' @ ''i18n'' = ''/srv/app''
       then searchDirectory_loop ?E ?x ''/srv/app'' ''/srv/app'' fresh_state
       else case (if ''i18n'' = ''i18n''
                  then loadTranslationFiles ?E (ReadDir_ok ?deep) (''/srv/app'' @ ''/'' @ ''i18n'') fresh_state
                  else searchDirectory ?E (ReadDir_ok ?deep) (''/srv/app'' @ ''/'' @ ''i18n'') ''/srv/app''
                         fresh_state) of
              (w1, Panic p) \<Rightarrow> (w1, Panic p)
            | (w1, Return u) \<Rightarrow> searchDirectory_loop ?E ?x ''/srv/app'' ''/srv/app'' w1)"
    by (rule scanned_directory [where env = ?E and name = "''i18n''" and sub = "ReadDir_ok ?deep"
          and rest = ?x and directory = "''/srv/app''" and pwd = "''/srv/app''" and w = fresh_state,
          THEN conjunct1])
  then have step: "searchDirectory_loop ?E tree_of_spec ''/srv/app'' ''/srv/app'' fresh_state
     = (\<lparr>Bundle = [(''en-US'', Translation ''/srv/app/x/i18n/en.json'' ''text'')], T = None,
         Logged = [INFO ''localize'' ''loadTranslationFiles'' ''Loading /srv/app/x/i18n/en.json'']\<rparr>,
        Return ())"
    by (simp add: tree_of_spec_def sample_externals_def fresh_state_def path_Ext_def
        MustLoadTranslationFile_def logged_def Let_def)
  have "loadTranslationFiles ?E (ReadDir_ok ?deep) ''/srv/app/i18n'' fresh_state
     = loadTranslationFiles ?E
         (ReadDir_ok (map (\<lambda>fileInfo. File (entry_Name fileInfo))
            (filter (\<lambda>fileInfo. path_Ext (entry_Name fileInfo) = ''.json'') ?deep)))
         ''/srv/app/i18n'' fresh_state"
    by (rule scanned_directory [where env = ?E and fileInfos = ?deep and folder = "''/srv/app/i18n''"
          and ?w0.0 = fresh_state, THEN conjunct2, THEN conjunct1])
  then have flat: "loadTranslationFiles ?E (ReadDir_ok ?deep) ''/srv/app/i18n'' fresh_state
     = loadTranslationFiles ?E (ReadDir_ok []) ''/srv/app/i18n'' fresh_state"
    by (simp add: path_Ext_def)
  have "\<forall>f. LoadTranslationFile ?E f = Inr (?content f)"
    by (simp add: sample_externals_def)
  with scanned_directory [where env = ?E and content = ?content
      and fileInfos = "[File ''en.json'', File ''notes.txt'']" and folder = "''/srv/app/x/i18n''"
      and ?w0.0 = fresh_state, THEN conjunct2, THEN conjunct2]
  have "Bundle (fst (loadTranslationFiles ?E (ReadDir_ok [File ''en.json'', File ''notes.txt''])
            ''/srv/app/x/i18n'' fresh_state)) =
          Bundle fresh_state @ concat (map (\<lambda>fileInfo. ?content (''/srv/app/x/i18n'' @ ''/'' @ entry_Name fileInfo))
            (filter (\<lambda>fileInfo. path_Ext (entry_Name fileInfo) = ''.json'')
               [File ''en.json'', File ''notes.txt'']))"
    by blast
  then have loaded: "Bundle (fst (loadTranslationFiles ?E (ReadDir_ok [File ''en.json'', File ''notes.txt''])
            ''/srv/app/x/i18n'' fresh_state))
     = [(''en-US'', Translation ''/srv/app/x/i18n/en.json'' ''text'')]"
    by (simp add: path_Ext_def fresh_state_def)
  from step flat loaded show ?thesis
    by blast
qed

subsection \<open>The working directory as the second root\<close>

text \<open>
  Claim C4, at \<open>GOPATH\<close> equal to the working directory \<open>/srv/app\<close>, which holds
  \<open>main.go\<close> and the resource folder \<open>i18n\<close> with one file. The claim expects the folder
  to be processed at most once. \<open>LoadFiles\<close> returns, but it has processed the folder
  twice: the file is loaded twice and its translation is registered twice. The test
  against the working directory is applied to the entries of a directory, never to the
  root the traversal starts from, so the second traversal repeats the first.
\<close>

theorem LoadFiles_same_roots_loads_twice:
  "LoadFiles (sample_externals ''/srv/app'' ''/srv/app'' tree_one_folder []) ''en-US'' ''en-US'' fresh_state
  = (\<lparr>Bundle = [(''en-US'', Translation ''/srv/app/i18n/en-US.all.json'' ''text''),
                 (''en-US'', Translation ''/srv/app/i18n/en-US.all.json'' ''text'')],
      T = Some (TranslateFunc ''en-US'' ''en-US''),
      Logged = [INFO ''localize'' ''LoadFiles'' ''PWD[/srv/app] GOPATH[/srv/app]'',
                INFO ''localize'' ''loadTranslationFiles'' ''Loading /srv/app/i18n/en-US.all.json'',
                INFO ''localize'' ''loadTranslationFiles'' ''Loading /srv/app/i18n/en-US.all.json'']\<rparr>, Return None)"
  by (simp add: LoadFiles_def sample_externals_def tree_one_folder_def fresh_state_def
      path_Ext_def MustLoadTranslationFile_def logged_def Let_def)

end
